theory Spec2Isabelle
  imports Complex_Main
begin

section \<open>JavaScript values\<close>

text \<open>
  The payments component (\<^verbatim>\<open>app/dashboard/components/Payments.js\<close>) receives a
  payload of JSON-like data and pushes every field through a small set of helper functions
  before it is shown. The helpers are embedded here over a datatype of JavaScript values.

  A number is an IEEE double: not-a-number, one of the two infinities, or a finite value,
  which is read as the rational it denotes (every finite double is a rational, and the
  comparisons of the source are exact on them; the two zeros are not told apart, as no
  comparison of the source does). A string is a list of code units; \<^typ>\<open>char\<close> stands
  for a code unit below 256. An object is the list of its own properties, read with
  \<^const>\<open>map_of\<close>; values are data (no functions, getters or symbols), as a parsed JSON
  payload has them, with \<open>undefined\<close> added for what a missing key reads as.
\<close>

datatype jsnum = NaN | PosInf | NegInf | Fin rat

datatype jsval =
    JUndefined
  | JNull
  | JBool bool
  | JNum jsnum
  | JStr string
  | JArr "jsval list"
  | JObj "(string \<times> jsval) list"

datatype js_error = TypeError

text \<open>
  What the source calls in the runtime and does not define: the digits of a finite number
  (\<^verbatim>\<open>Number::toString\<close>), the number a string denotes (\<^verbatim>\<open>StringToNumber\<close>), the
  \<^verbatim>\<open>en-IN\<close> formatting of a number (\<^verbatim>\<open>toLocaleString('en-IN')\<close>), \<^verbatim>\<open>Date.parse\<close>
  (\<open>None\<close> is the not-a-number time value of an invalid date; time values are integral
  milliseconds since the epoch) and the \<^verbatim>\<open>en-IN\<close> formatting of a date with year, short
  month, day, hour and minute. They are parameters of the model.
\<close>

record platform =
  finiteToString :: "rat \<Rightarrow> string"
  stringToNumber :: "string \<Rightarrow> jsnum"
  toLocaleString_enIN :: "jsnum \<Rightarrow> string"
  dateParse :: "string \<Rightarrow> int option"
  toLocaleDateString_enIN :: "int \<Rightarrow> string"

fun truthy :: "jsval \<Rightarrow> bool" where
  "truthy JUndefined = False"
| "truthy JNull = False"
| "truthy (JBool b) = b"
| "truthy (JNum n) = (n \<noteq> NaN \<and> n \<noteq> Fin 0)"
| "truthy (JStr s) = (s \<noteq> [])"
| "truthy (JArr xs) = True"
| "truthy (JObj kvs) = True"

fun typeof :: "jsval \<Rightarrow> string" where
  "typeof JUndefined = ''undefined''"
| "typeof JNull = ''object''"
| "typeof (JBool b) = ''boolean''"
| "typeof (JNum n) = ''number''"
| "typeof (JStr s) = ''string''"
| "typeof (JArr xs) = ''object''"
| "typeof (JObj kvs) = ''object''"

fun isArray :: "jsval \<Rightarrow> bool" where
  "isArray (JArr xs) = True"
| "isArray v = False"

text \<open>\<^verbatim>\<open>value == null\<close> holds of \<open>null\<close> and \<open>undefined\<close> only.\<close>

fun eq_null :: "jsval \<Rightarrow> bool" where
  "eq_null JUndefined = True"
| "eq_null JNull = True"
| "eq_null v = False"

text \<open>
  Reading a property: \<^verbatim>\<open>payment?.id\<close>, \<^verbatim>\<open>data.payments\<close>, \<^verbatim>\<open>payment.status\<close>. The
  source reads only the fixed keys of the payload and of its own records, none of which a
  built-in prototype defines, so a key that is not an own property of an object reads as
  \<open>undefined\<close>, as does any key of a primitive or an array; on \<open>null\<close> and \<open>undefined\<close>
  the optional chaining gives \<open>undefined\<close> as well.
\<close>

fun getProp :: "jsval \<Rightarrow> string \<Rightarrow> jsval" where
  "getProp (JObj kvs) k = (case map_of kvs k of Some v \<Rightarrow> v | None \<Rightarrow> JUndefined)"
| "getProp v k = JUndefined"

subsection \<open>Conversions\<close>

definition numberToString :: "platform \<Rightarrow> jsnum \<Rightarrow> string" where
  "numberToString p n =
     (case n of NaN \<Rightarrow> ''NaN'' | PosInf \<Rightarrow> ''Infinity'' | NegInf \<Rightarrow> ''-Infinity''
      | Fin q \<Rightarrow> finiteToString p q)"

text \<open>
  \<^verbatim>\<open>String(value)\<close>. An array is joined with commas, \<open>null\<close> and \<open>undefined\<close> elements
  giving the empty string. A plain object has the inherited \<^verbatim>\<open>toString\<close> unless it has
  an own property of that name; the own property holds data, which is not callable, and
  the inherited \<^verbatim>\<open>valueOf\<close> gives back the object, so the conversion throws a
  \<open>TypeError\<close>.
\<close>

fun ToString :: "platform \<Rightarrow> jsval \<Rightarrow> js_error + string"
  and join :: "platform \<Rightarrow> jsval list \<Rightarrow> js_error + string" where
  "ToString p JUndefined = Inr ''undefined''"
| "ToString p JNull = Inr ''null''"
| "ToString p (JBool b) = Inr (if b then ''true'' else ''false'')"
| "ToString p (JNum n) = Inr (numberToString p n)"
| "ToString p (JStr s) = Inr s"
| "ToString p (JArr xs) = join p xs"
| "ToString p (JObj kvs) =
     (if ''toString'' \<in> set (map fst kvs) then Inl TypeError else Inr ''[object Object]'')"
| "join p [] = Inr []"
| "join p (x # xs) =
     (case (if eq_null x then Inr [] else ToString p x) of
        Inl e \<Rightarrow> Inl e
      | Inr s \<Rightarrow>
          (if xs = [] then Inr s
           else (case join p xs of Inl e \<Rightarrow> Inl e | Inr t \<Rightarrow> Inr (s @ '','' @ t))))"

text \<open>
  \<^verbatim>\<open>Number(value)\<close>. An array or object is first made primitive; with data properties
  only, that is its string, or the \<open>TypeError\<close> above.
\<close>

fun ToNumber :: "platform \<Rightarrow> jsval \<Rightarrow> js_error + jsnum" where
  "ToNumber p JUndefined = Inr NaN"
| "ToNumber p JNull = Inr (Fin 0)"
| "ToNumber p (JBool b) = Inr (Fin (if b then 1 else 0))"
| "ToNumber p (JNum n) = Inr n"
| "ToNumber p (JStr s) = Inr (stringToNumber p s)"
| "ToNumber p v = (case ToString p v of Inl e \<Rightarrow> Inl e | Inr s \<Rightarrow> Inr (stringToNumber p s))"

subsection \<open>String methods\<close>

definition is_space :: "char \<Rightarrow> bool" where
  "is_space c = (of_char c \<in> {9, 10, 11, 12, 13, 32, 160 :: nat})"

definition trim :: "string \<Rightarrow> string" where
  "trim s = rev (dropWhile is_space (rev (dropWhile is_space s)))"

definition toLowerCase_char :: "char \<Rightarrow> char" where
  "toLowerCase_char c =
     (let n = of_char c :: nat
      in if (65 \<le> n \<and> n \<le> 90) \<or> (192 \<le> n \<and> n \<le> 222 \<and> n \<noteq> 215)
         then char_of (n + 32) else c)"

definition toLowerCase :: "string \<Rightarrow> string" where
  "toLowerCase s = map toLowerCase_char s"

definition substring :: "nat \<Rightarrow> nat \<Rightarrow> string \<Rightarrow> string" where
  "substring i j s = take (max i j - min i j) (drop (min i j) s)"

subsection \<open>Regular expressions\<close>

text \<open>
  The three patterns of the text sanitizer are written in the syntax tree below and run by
  a backtracking matcher: \<open>rx_ends\<close> lists, in the order in which backtracking tries them,
  the positions at which a match of the pattern that starts at the given position can end.
  A position is the code unit before it (for \<^verbatim>\<open>\b\<close>) and the input that remains. The
  first end listed is the match that \<^verbatim>\<open>RegExp.prototype.exec\<close> reports there.
\<close>

datatype rx =
    Lit string          \<comment> \<open>the characters, one after the other\<close>
  | NoneOf string       \<comment> \<open>\<^verbatim>\<open>[^...]\<close>\<close>
  | OneOf string        \<comment> \<open>\<^verbatim>\<open>[...]\<close>\<close>
  | WordChar            \<comment> \<open>\<^verbatim>\<open>\w\<close>\<close>
  | WordBoundary        \<comment> \<open>\<^verbatim>\<open>\b\<close>\<close>
  | Cat rx rx
  | Star rx             \<comment> \<open>greedy \<^verbatim>\<open>*\<close>\<close>
  | NotAhead rx         \<comment> \<open>\<^verbatim>\<open>(?!...)\<close>\<close>

type_synonym cursor = "char option \<times> string"

definition is_word_char :: "char \<Rightarrow> bool" where
  "is_word_char c =
     (c \<in> set ''abcdefghijklmnopqrstuvwxyzABCDEFGHIJKLMNOPQRSTUVWXYZ0123456789_'')"

text \<open>
  Under the \<^verbatim>\<open>i\<close> flag (without \<^verbatim>\<open>u\<close>) two code units match when their canonical
  forms, the upper-case ones, are equal. A code unit from 128 on never has an ASCII
  canonical form, and the patterns of the source are ASCII, so only the ASCII letters are
  folded.
\<close>

definition canonicalize :: "bool \<Rightarrow> char \<Rightarrow> char" where
  "canonicalize ignoreCase c =
     (if ignoreCase then
        (case map_of (zip ''abcdefghijklmnopqrstuvwxyz'' ''ABCDEFGHIJKLMNOPQRSTUVWXYZ'') c of
           Some u \<Rightarrow> u | None \<Rightarrow> c)
      else c)"

definition in_class :: "bool \<Rightarrow> string \<Rightarrow> char \<Rightarrow> bool" where
  "in_class ignoreCase cls c =
     (canonicalize ignoreCase c \<in> set (map (canonicalize ignoreCase) cls))"

definition at_word_boundary :: "cursor \<Rightarrow> bool" where
  "at_word_boundary cur =
     (let a = (case fst cur of None \<Rightarrow> False | Some c \<Rightarrow> is_word_char c);
          b = (case snd cur of [] \<Rightarrow> False | c # _ \<Rightarrow> is_word_char c)
      in a \<noteq> b)"

function rx_ends :: "bool \<Rightarrow> rx \<Rightarrow> cursor \<Rightarrow> cursor list" where
  "rx_ends ic (Lit []) cur = [cur]"
| "rx_ends ic (Lit (c # cs)) (prev, []) = []"
| "rx_ends ic (Lit (c # cs)) (prev, x # xs) =
     (if canonicalize ic c = canonicalize ic x then rx_ends ic (Lit cs) (Some x, xs) else [])"
| "rx_ends ic (NoneOf cls) (prev, []) = []"
| "rx_ends ic (NoneOf cls) (prev, x # xs) = (if in_class ic cls x then [] else [(Some x, xs)])"
| "rx_ends ic (OneOf cls) (prev, []) = []"
| "rx_ends ic (OneOf cls) (prev, x # xs) = (if in_class ic cls x then [(Some x, xs)] else [])"
| "rx_ends ic WordChar (prev, []) = []"
| "rx_ends ic WordChar (prev, x # xs) = (if is_word_char x then [(Some x, xs)] else [])"
| "rx_ends ic WordBoundary cur = (if at_word_boundary cur then [cur] else [])"
| "rx_ends ic (Cat a b) cur = concat (map (rx_ends ic b) (rx_ends ic a cur))"
| "rx_ends ic (Star a) cur =
     concat (map (rx_ends ic (Star a))
               (filter (\<lambda>cur'. length (snd cur') < length (snd cur)) (rx_ends ic a cur)))
     @ [cur]"
| "rx_ends ic (NotAhead a) cur = (if rx_ends ic a cur = [] then [cur] else [])"
  by pat_completeness auto
termination
  by (relation "measures [\<lambda>(ic, r, cur). size r, \<lambda>(ic, r, cur). length (snd cur)]") auto

fun cats :: "rx list \<Rightarrow> rx" where
  "cats [] = Lit []"
| "cats [r] = r"
| "cats (r # rs) = Cat r (cats rs)"

definition Plus :: "rx \<Rightarrow> rx" where
  \<comment> \<open>greedy \<^verbatim>\<open>+\<close>: one match, then as many more as possible\<close>
  "Plus r = Cat r (Star r)"

text \<open>
  \<^verbatim>\<open>str.replace(re, '')\<close> with a global pattern: the leftmost match is looked for from the
  current position on, cut out, and the search goes on behind it; a position where the
  pattern matches nothing, or matches the empty string, keeps its code unit.
\<close>

function replace_from :: "bool \<Rightarrow> rx \<Rightarrow> cursor \<Rightarrow> string" where
  "replace_from ic r (prev, []) = []"
| "replace_from ic r (prev, x # xs) =
     (case rx_ends ic r (prev, x # xs) of
        [] \<Rightarrow> x # replace_from ic r (Some x, xs)
      | e # _ \<Rightarrow>
          (if length (snd e) < length (x # xs) then replace_from ic r e
           else x # replace_from ic r (Some x, xs)))"
  by pat_completeness auto
termination
  by (relation "measure (\<lambda>(ic, r, cur). length (snd cur))") auto

definition replace_empty :: "rx \<Rightarrow> bool \<Rightarrow> string \<Rightarrow> string" where
  \<comment> \<open>\<^verbatim>\<open>s.replace(/r/g, '')\<close>, or \<^verbatim>\<open>/r/gi\<close> when the flag is set\<close>
  "replace_empty r ignoreCase s = replace_from ignoreCase r (None, s)"

subsection \<open>Exceptions\<close>

definition bind :: "js_error + 'a \<Rightarrow> ('a \<Rightarrow> js_error + 'b) \<Rightarrow> js_error + 'b" where
  "bind m f = (case m of Inl e \<Rightarrow> Inl e | Inr x \<Rightarrow> f x)"

definition try_catch :: "js_error + 'a \<Rightarrow> (js_error \<Rightarrow> js_error + 'a) \<Rightarrow> js_error + 'a" where
  "try_catch body handler = (case body of Inl e \<Rightarrow> handler e | Inr x \<Rightarrow> Inr x)"

section \<open>The sanitizers\<close>

subsection \<open>Text\<close>

definition script_tag :: rx where
  \<comment> \<open>\<^verbatim>\<open>/<script\b[^<]*(?:(?!<\/script>)<[^<]*)*<\/script>/gi\<close>\<close>
  "script_tag =
     cats [Lit ''<script'', WordBoundary, Star (NoneOf ''<''),
           Star (cats [NotAhead (Lit ''</script>''), Lit ''<'', Star (NoneOf ''<'')]),
           Lit ''</script>'']"

definition quotes :: string where
  "quotes = [CHR 0x22, CHR 0x27]"

definition event_handler :: rx where
  \<comment> \<open>\<^verbatim>\<open>/on\w+=["'][^"']*["']/g\<close>\<close>
  "event_handler =
     cats [Lit ''on'', Plus WordChar, Lit ''='', OneOf quotes, Star (NoneOf quotes),
           OneOf quotes]"

definition javascript_uri :: rx where
  \<comment> \<open>\<^verbatim>\<open>/javascript:/gi\<close>\<close>
  "javascript_uri = Lit ''javascript:''"

definition safeToString :: "platform \<Rightarrow> jsval \<Rightarrow> string \<Rightarrow> js_error + string" where
  "safeToString p v defaultValue =
     (if eq_null v then Inr defaultValue
      else try_catch
        (bind (ToString p v) (\<lambda>str.
           let stringValue = trim str
           in Inr (substring 0 500
                (replace_empty javascript_uri True
                  (replace_empty event_handler False
                    (replace_empty script_tag True stringValue))))))
        (\<lambda>error. Inr defaultValue))"

subsection \<open>Numbers and currency\<close>

fun num_less :: "jsnum \<Rightarrow> jsnum \<Rightarrow> bool" where
  "num_less NaN b = False"
| "num_less a NaN = False"
| "num_less (Fin a) (Fin b) = (a < b)"
| "num_less PosInf b = False"
| "num_less a PosInf = True"
| "num_less a NegInf = False"
| "num_less NegInf b = True"

fun isNaN :: "jsnum \<Rightarrow> bool" where
  "isNaN NaN = True"
| "isNaN n = False"

fun isFinite :: "jsnum \<Rightarrow> bool" where
  "isFinite (Fin q) = True"
| "isFinite n = False"

definition safeFormatNumber :: "platform \<Rightarrow> jsval \<Rightarrow> string \<Rightarrow> js_error + string" where
  "safeFormatNumber p v defaultValue =
     (if eq_null v then Inr defaultValue
      else try_catch
        (bind (ToNumber p v) (\<lambda>num.
           if isNaN num \<or> \<not> isFinite num then Inr defaultValue
           else if num_less num (Fin 0) \<or> num_less (Fin 100000000) num then Inr ''Invalid''
           else Inr (toLocaleString_enIN p num)))
        (\<lambda>error. Inr defaultValue))"

definition safeFormatCurrency ::
  "platform \<Rightarrow> jsval \<Rightarrow> string \<Rightarrow> string \<Rightarrow> js_error + string" where
  "safeFormatCurrency p v currency defaultValue =
     (if eq_null v then Inr defaultValue
      else try_catch
        (bind (ToNumber p v) (\<lambda>num.
           if isNaN num \<or> \<not> isFinite num then Inr defaultValue
           else if num_less num (Fin 0) \<or> num_less (Fin 100000000) num
             then Inr (currency @ ''Invalid'')
           else Inr (currency @ toLocaleString_enIN p num)))
        (\<lambda>error. Inr defaultValue))"

subsection \<open>Dates\<close>

text \<open>
  \<^verbatim>\<open>new Date(value)\<close> gives a time value, or none for an invalid date. A string is
  parsed, an array or object is made primitive (a string) and parsed, anything else is
  converted to a number, truncated and checked against the range of time values.
\<close>

definition TimeClip :: "jsnum \<Rightarrow> int option" where
  "TimeClip n =
     (case n of
        Fin q \<Rightarrow> if \<bar>q\<bar> > 8640000000000000 then None
                 else Some (if q < 0 then \<lceil>q\<rceil> else \<lfloor>q\<rfloor>)
      | _ \<Rightarrow> None)"

fun Date_new :: "platform \<Rightarrow> jsval \<Rightarrow> js_error + int option" where
  "Date_new p (JStr s) = Inr (dateParse p s)"
| "Date_new p (JArr xs) = bind (ToString p (JArr xs)) (\<lambda>s. Inr (dateParse p s))"
| "Date_new p (JObj kvs) = bind (ToString p (JObj kvs)) (\<lambda>s. Inr (dateParse p s))"
| "Date_new p v = bind (ToNumber p v) (\<lambda>n. Inr (TimeClip n))"

text \<open>\<^verbatim>\<open>a > b\<close> on two dates compares their time values; an invalid date compares false.\<close>

fun date_greater :: "int option \<Rightarrow> int option \<Rightarrow> bool" where
  "date_greater (Some a) (Some b) = (a > b)"
| "date_greater a b = False"

text \<open>The clock reading \<open>now\<close> is the time value of \<^verbatim>\<open>new Date()\<close>.\<close>

definition safeFormatDate :: "platform \<Rightarrow> int \<Rightarrow> jsval \<Rightarrow> string \<Rightarrow> js_error + string" where
  "safeFormatDate p now dateString defaultValue =
     (if \<not> truthy dateString then Inr defaultValue
      else try_catch
        (bind (Date_new p dateString) (\<lambda>date.
           case date of
             None \<Rightarrow> Inr defaultValue
           | Some t \<Rightarrow>
               if date_greater date (TimeClip (Fin (of_int (now + 86400000))))
               then Inr ''Invalid Date''
               else Inr (toLocaleDateString_enIN p t)))
        (\<lambda>error. Inr defaultValue))"

subsection \<open>Payment methods\<close>

definition PAYMENT_METHODS :: "(string \<times> string) list" where
  "PAYMENT_METHODS =
     [(''credit_card'', ''Credit Card''),
      (''debit_card'', ''Debit Card''),
      (''upi'', ''UPI''),
      (''netbanking'', ''Net Banking''),
      (''wallet'', ''Digital Wallet'')]"

text \<open>
  \<^verbatim>\<open>PAYMENT_METHODS\<close> is an object literal, so a key that is not its own is looked up in
  \<^verbatim>\<open>Object.prototype\<close>, whose properties are the functions and the accessor below.
\<close>

definition Object_prototype :: "string list" where
  "Object_prototype =
     [''constructor'', ''__defineGetter__'', ''__defineSetter__'', ''hasOwnProperty'',
      ''__lookupGetter__'', ''__lookupSetter__'', ''isPrototypeOf'', ''propertyIsEnumerable'',
      ''toString'', ''valueOf'', ''__proto__'', ''toLocaleString'']"

datatype method_value =
    Text string        \<comment> \<open>a string\<close>
  | Inherited string   \<comment> \<open>the member of \<^verbatim>\<open>Object.prototype\<close> of that name: a function or object\<close>

definition PAYMENT_METHODS_get :: "string \<Rightarrow> method_value option" where
  \<comment> \<open>\<^verbatim>\<open>PAYMENT_METHODS[key]\<close>; \<open>None\<close> is \<open>undefined\<close>\<close>
  "PAYMENT_METHODS_get k =
     (case map_of PAYMENT_METHODS k of
        Some label \<Rightarrow> Some (Text label)
      | None \<Rightarrow> if k \<in> set Object_prototype then Some (Inherited k) else None)"

fun truthy_member :: "method_value option \<Rightarrow> bool" where
  "truthy_member None = False"
| "truthy_member (Some (Text s)) = (s \<noteq> [])"
| "truthy_member (Some (Inherited k)) = True"

definition safePaymentMethod :: "platform \<Rightarrow> jsval \<Rightarrow> js_error + method_value" where
  "safePaymentMethod p method =
     bind (safeToString p method []) (\<lambda>s.
       let safeMethod = toLowerCase s
       in case PAYMENT_METHODS_get safeMethod of
            Some m \<Rightarrow>
              if truthy_member (Some m) then Inr m
              else bind (safeToString p method ''Unknown'') (\<lambda>t. Inr (Text t))
          | None \<Rightarrow> bind (safeToString p method ''Unknown'') (\<lambda>t. Inr (Text t)))"

section \<open>The record normalizer\<close>

definition DEFAULT_DATA :: jsval where
  "DEFAULT_DATA = JObj [(''payments'', JArr [])]"

definition to_record :: "jsval \<Rightarrow> jsval" where
  \<comment> \<open>the callback of \<^verbatim>\<open>map\<close>\<close>
  "to_record payment =
     JObj [(''id'', getProp payment ''id''),
           (''bookingId'', getProp payment ''booking_id''),
           (''amount'', getProp payment ''amount''),
           (''method'', getProp payment ''method''),
           (''status'', getProp payment ''status''),
           (''paidAt'', getProp payment ''paid_at''),
           (''gatewayId'', getProp payment ''gatewayId''),
           (''refundId'', getProp payment ''refund_id''),
           (''refundTime'', getProp payment ''refund_time''),
           (''apartmentTitle'', getProp payment ''apartment_title''),
           (''startDate'', getProp payment ''start_date''),
           (''endDate'', getProp payment ''end_date'')]"

definition has_structure :: "jsval \<Rightarrow> bool" where
  \<comment> \<open>the callback of \<^verbatim>\<open>filter\<close>, as the truth value \<^verbatim>\<open>filter\<close> takes of it\<close>
  "has_structure payment =
     (truthy payment \<and> typeof payment = ''object'' \<and> \<not> isArray payment \<and>
      (truthy (getProp payment ''id'') \<or> truthy (getProp payment ''bookingId'')))"

definition getSafeData :: "jsval \<Rightarrow> js_error + jsval" where
  "getSafeData data =
     try_catch
       (if \<not> truthy data \<or> typeof data \<noteq> ''object'' \<or> isArray data then Inr DEFAULT_DATA
        else Inr (JObj [(''payments'',
               (case getProp data ''payments'' of
                  JArr entries \<Rightarrow> JArr (filter has_structure (map to_record entries))
                | _ \<Rightarrow> getProp DEFAULT_DATA ''payments''))]))
       (\<lambda>error. Inr DEFAULT_DATA)"

section \<open>The filter\<close>

definition FILTERS :: "(string \<times> string) list" where
  \<comment> \<open>\<open>id\<close> and \<open>label\<close> of each entry\<close>
  "FILTERS = [(''all'', ''All''), (''paid'', ''Paid''), (''refunded'', ''Refunded''),
              (''failed'', ''Failed'')]"

text \<open>
  The component holds the selector in a state cell that starts as \<^verbatim>\<open>'all'\<close>;
  \<open>handleFilterChange\<close> takes the cell's value and the request and gives the cell's next
  value.
\<close>

definition initial_filter :: jsval where
  "initial_filter = JStr ''all''"

definition handleFilterChange :: "jsval \<Rightarrow> jsval \<Rightarrow> js_error + jsval" where
  "handleFilterChange current newFilter =
     try_catch
       (if typeof newFilter = ''string'' \<and> list_ex (\<lambda>f. JStr (fst f) = newFilter) FILTERS
        then Inr newFilter else Inr current)
       (\<lambda>error. Inr current)"

fun run_requests :: "jsval \<Rightarrow> jsval list \<Rightarrow> js_error + jsval" where
  "run_requests current [] = Inr current"
| "run_requests current (r # rs) =
     bind (handleFilterChange current r) (\<lambda>next. run_requests next rs)"

text \<open>\<^verbatim>\<open>Array.prototype.filter\<close> with a callback that may throw.\<close>

fun filter_res :: "('a \<Rightarrow> js_error + bool) \<Rightarrow> 'a list \<Rightarrow> js_error + 'a list" where
  "filter_res f [] = Inr []"
| "filter_res f (x # xs) =
     bind (f x) (\<lambda>b. bind (filter_res f xs) (\<lambda>ys. Inr (if b then x # ys else ys)))"

definition keep_payment :: "platform \<Rightarrow> jsval \<Rightarrow> jsval \<Rightarrow> js_error + bool" where
  "keep_payment p selector payment =
     (if \<not> truthy payment \<or> typeof payment \<noteq> ''object'' then Inr False
      else try_catch
        (if selector = JStr ''all'' then Inr True
         else bind (safeToString p (getProp payment ''status'') [])
                (\<lambda>paymentStatus. Inr (JStr paymentStatus = selector)))
        (\<lambda>error. Inr False))"

definition filteredPayments :: "platform \<Rightarrow> jsval \<Rightarrow> jsval \<Rightarrow> js_error + jsval list" where
  "filteredPayments p safeData selector =
     (case getProp safeData ''payments'' of
        JArr payments \<Rightarrow> filter_res (keep_payment p selector) payments
      | _ \<Rightarrow> Inl TypeError)"

text \<open>
  The predicate that \<open>keep_payment\<close> computes, without the exception layer.
\<close>

definition shown :: "platform \<Rightarrow> jsval \<Rightarrow> jsval \<Rightarrow> bool" where
  "shown p selector r =
     (truthy r \<and> typeof r = ''object'' \<and>
      (selector = JStr ''all'' \<or>
       (case safeToString p (getProp r ''status'') [] of
          Inr s \<Rightarrow> JStr s = selector
        | Inl e \<Rightarrow> False)))"

section \<open>A runtime for closed instances\<close>

text \<open>
  The theorems below hold for every runtime. Their instances on concrete inputs are stated
  for one runtime, given by finite tables of what a JavaScript engine in the Indian time
  zone answers; arguments outside a table get a fixed answer, and no instance reads one.
  The default currency symbol, the rupee sign U+20B9, lies outside the code units that
  \<^typ>\<open>char\<close> covers; the sanitizer only prepends it, and it is written as its three UTF-8
  bytes.
\<close>

definition lookup_or :: "'b \<Rightarrow> ('a \<times> 'b) list \<Rightarrow> 'a \<Rightarrow> 'b" where
  "lookup_or d table x = (case map_of table x of Some y \<Rightarrow> y | None \<Rightarrow> d)"

definition sample_platform :: platform where
  "sample_platform =
     \<lparr>finiteToString = lookup_or ''0'' [(0, ''0''), (500, ''500''), (999999999, ''999999999'')],
      stringToNumber = lookup_or NaN [([], Fin 0), (''500'', Fin 500)],
      toLocaleString_enIN =
        lookup_or ''0'' [(Fin 0, ''0''), (Fin 500, ''500''), (Fin 100000000, ''10,00,00,000'')],
      dateParse = lookup_or None [(''2024-01-15T10:30:00.000Z'', Some 1705314600000)],
      toLocaleDateString_enIN =
        lookup_or ''1 Jan 1970, 05:30 am''
          [(0, ''1 Jan 1970, 05:30 am''), (1705314600000, ''15 Jan 2024, 04:00 pm'')]\<rparr>"

definition rupee :: string where
  "rupee = [CHR 0xE2, CHR 0x82, CHR 0xB9]"

section \<open>Exceptions and totality\<close>

lemma try_catch_Inr [simp]: "try_catch (Inr x) h = Inr x"
  by (simp add: try_catch_def)

lemma try_catch_Inl [simp]: "try_catch (Inl e) h = h e"
  by (simp add: try_catch_def)

lemma bind_Inr [simp]: "bind (Inr x) f = f x"
  by (simp add: bind_def)

lemma bind_Inl [simp]: "bind (Inl e) f = Inl e"
  by (simp add: bind_def)

text \<open>
  No sanitizer throws: whatever the conversion inside the \<^verbatim>\<open>try\<close> block does, the
  result is a value. When the conversion throws, the value is the default.
\<close>

lemma safeToString_null: "eq_null v \<Longrightarrow> safeToString p v d = Inr d"
  by (simp add: safeToString_def)

lemma safeToString_throw:
  "\<not> eq_null v \<Longrightarrow> ToString p v = Inl e \<Longrightarrow> safeToString p v d = Inr d"
  by (simp add: safeToString_def)

lemma safeToString_total: "\<exists>s. safeToString p v d = Inr s"
  by (cases "ToString p v") (simp_all add: safeToString_def Let_def)

lemma safeToString_length:
  assumes "\<not> eq_null v" and "safeToString p v d = Inr s" and "length d \<le> 500"
  shows "length s \<le> 500"
  using assms
  by (cases "ToString p v") (auto simp add: safeToString_def Let_def substring_def)

lemma safeFormatNumber_total: "\<exists>s. safeFormatNumber p v d = Inr s"
  by (cases "ToNumber p v") (simp_all add: safeFormatNumber_def)

lemma safeFormatNumber_throw:
  "\<not> eq_null v \<Longrightarrow> ToNumber p v = Inl e \<Longrightarrow> safeFormatNumber p v d = Inr d"
  by (simp add: safeFormatNumber_def)

lemma safeFormatCurrency_total: "\<exists>s. safeFormatCurrency p v c d = Inr s"
  by (cases "ToNumber p v") (simp_all add: safeFormatCurrency_def)

lemma safeFormatCurrency_throw:
  "\<not> eq_null v \<Longrightarrow> ToNumber p v = Inl e \<Longrightarrow> safeFormatCurrency p v c d = Inr d"
  by (simp add: safeFormatCurrency_def)

lemma safeFormatDate_total: "\<exists>s. safeFormatDate p now v d = Inr s"
proof (cases "Date_new p v")
  case (Inl e)
  then show ?thesis by (simp add: safeFormatDate_def)
next
  case (Inr date)
  then show ?thesis by (cases date) (simp_all add: safeFormatDate_def)
qed

lemma safeFormatDate_throw: "Date_new p v = Inl e \<Longrightarrow> safeFormatDate p now v d = Inr d"
  by (simp add: safeFormatDate_def)

lemma safePaymentMethod_total: "\<exists>m. safePaymentMethod p v = Inr m"
proof -
  obtain s where s: "safeToString p v [] = Inr s"
    using safeToString_total by blast
  obtain t where t: "safeToString p v ''Unknown'' = Inr t"
    using safeToString_total by blast
  show ?thesis
    by (cases "PAYMENT_METHODS_get (toLowerCase s)")
      (simp_all add: safePaymentMethod_def s t Let_def)
qed

section \<open>The record normalizer: shape of the payload\<close>

lemma getProp_to_record:
  "getProp (to_record e) ''id'' = getProp e ''id''"
  "getProp (to_record e) ''bookingId'' = getProp e ''booking_id''"
  "getProp (to_record e) ''status'' = getProp e ''status''"
  by (simp_all add: to_record_def)

lemma has_structure_to_record:
  "has_structure (to_record e) = (truthy (getProp e ''id'') \<or> truthy (getProp e ''booking_id''))"
  unfolding has_structure_def getProp_to_record by (simp add: to_record_def)

lemma filter_to_record:
  "filter has_structure (map to_record entries) =
   map to_record
     (filter (\<lambda>e. truthy (getProp e ''id'') \<or> truthy (getProp e ''booking_id'')) entries)"
  by (induction entries) (simp_all add: has_structure_to_record)

lemma to_record_object: "truthy (to_record e) \<and> typeof (to_record e) = ''object''"
  by (simp add: to_record_def)

lemma getSafeData_array:
  assumes "truthy d" and "typeof d = ''object''" and "\<not> isArray d"
    and "getProp d ''payments'' = JArr entries"
  shows "getSafeData d =
     Inr (JObj [(''payments'', JArr (filter has_structure (map to_record entries)))])"
  using assms by (simp add: getSafeData_def)

lemma getSafeData_not_object:
  assumes "\<not> truthy d \<or> typeof d \<noteq> ''object'' \<or> isArray d"
  shows "getSafeData d = Inr (JObj [(''payments'', JArr [])])"
  using assms by (auto simp add: getSafeData_def DEFAULT_DATA_def)

lemma getSafeData_not_array:
  assumes "truthy d" and "typeof d = ''object''" and "\<not> isArray d"
    and "\<not> isArray (getProp d ''payments'')"
  shows "getSafeData d = Inr (JObj [(''payments'', JArr [])])"
  using assms
  by (cases "getProp d ''payments''") (simp_all add: getSafeData_def DEFAULT_DATA_def)

lemma getSafeData_shape:
  "\<exists>recs. getSafeData d = Inr (JObj [(''payments'', JArr recs)]) \<and>
      (\<forall>r \<in> set recs. \<exists>e. r = to_record e)"
proof (cases "\<not> truthy d \<or> typeof d \<noteq> ''object'' \<or> isArray d")
  case True
  then show ?thesis using getSafeData_not_object [of d] by simp
next
  case shape: False
  show ?thesis
  proof (cases "isArray (getProp d ''payments'')")
    case True
    then obtain entries where "getProp d ''payments'' = JArr entries"
      by (cases "getProp d ''payments''") auto
    with shape show ?thesis using getSafeData_array [of d entries] by auto
  next
    case False
    with shape show ?thesis using getSafeData_not_array [of d] by simp
  qed
qed

text \<open>
  Claim C5. For every payload that is not a non-array object (a primitive, \<open>null\<close>,
  \<open>undefined\<close> or an array), and for every object whose \<open>payments\<close> key is missing or is
  not an array, the normalizer returns normally, with the empty record set.
\<close>

theorem getSafeData_empty:
  assumes "\<not> truthy d \<or> typeof d \<noteq> ''object'' \<or> isArray d \<or>
           \<not> isArray (getProp d ''payments'')"
  shows "getSafeData d = Inr (JObj [(''payments'', JArr [])])"
proof (cases "\<not> truthy d \<or> typeof d \<noteq> ''object'' \<or> isArray d")
  case True
  then show ?thesis by (rule getSafeData_not_object)
next
  case False
  with assms have "\<not> isArray (getProp d ''payments'')" by blast
  with False show ?thesis by (intro getSafeData_not_array) simp_all
qed

text \<open>
  A string, \<open>null\<close>, an array at the top level, an object without the key and an object
  whose \<open>payments\<close> is itself an object all give the empty record set.
\<close>

theorem getSafeData_empty_witness:
  "getSafeData (JStr ''payments'') = Inr (JObj [(''payments'', JArr [])]) \<and>
   getSafeData JNull = Inr (JObj [(''payments'', JArr [])]) \<and>
   getSafeData (JArr [JObj [(''id'', JStr ''p1'')]]) = Inr (JObj [(''payments'', JArr [])]) \<and>
   getSafeData (JObj [(''items'', JArr [])]) = Inr (JObj [(''payments'', JArr [])]) \<and>
   getSafeData (JObj [(''payments'', JObj [(''id'', JStr ''p1'')])])
     = Inr (JObj [(''payments'', JArr [])])"
  using getSafeData_empty [of "JStr ''payments''"] getSafeData_empty [of JNull]
    getSafeData_empty [of "JArr [JObj [(''id'', JStr ''p1'')]]"]
    getSafeData_empty [of "JObj [(''items'', JArr [])]"]
    getSafeData_empty [of "JObj [(''payments'', JObj [(''id'', JStr ''p1'')])]"]
  by simp

section \<open>The record normalizer: identity fields\<close>

text \<open>
  Claim C1, as the code has it. The payload being an object whose \<open>payments\<close> is an array,
  the record set is the image, in order, of the entries that have a truthy \<open>id\<close> or a truthy
  \<open>booking_id\<close>: such an entry yields exactly one record, and an entry whose two identity
  fields are both falsy (missing, \<open>null\<close>, \<open>false\<close>, zero, not-a-number or the empty
  string) yields none.
\<close>

theorem getSafeData_identity:
  assumes "truthy d" and "typeof d = ''object''" and "\<not> isArray d"
    and "getProp d ''payments'' = JArr entries"
  shows "getSafeData d =
     Inr (JObj [(''payments'',
        JArr (map to_record
          (filter (\<lambda>e. truthy (getProp e ''id'') \<or> truthy (getProp e ''booking_id''))
             entries)))])"
  using assms by (simp add: getSafeData_array filter_to_record)

text \<open>
  Of four entries, the one identified by its booking and the one identified by its \<open>id\<close>
  are kept, in this order; the one with neither field and the one with a \<open>null\<close> \<open>id\<close> and
  an empty \<open>booking_id\<close> are dropped.
\<close>

theorem getSafeData_identity_witness:
  "getSafeData (JObj [(''payments'',
      JArr [JObj [(''booking_id'', JStr ''b1''), (''amount'', JNum (Fin 999999999))],
            JObj [(''amount'', JNum (Fin 5))],
            JObj [(''id'', JNull), (''booking_id'', JStr [])],
            JObj [(''id'', JStr ''p1''), (''status'', JStr ''paid'')]])])
   = Inr (JObj [(''payments'',
      JArr [to_record (JObj [(''booking_id'', JStr ''b1''), (''amount'', JNum (Fin 999999999))]),
            to_record (JObj [(''id'', JStr ''p1''), (''status'', JStr ''paid'')])])])"
  using getSafeData_identity [of "JObj [(''payments'',
      JArr [JObj [(''booking_id'', JStr ''b1''), (''amount'', JNum (Fin 999999999))],
            JObj [(''amount'', JNum (Fin 5))],
            JObj [(''id'', JNull), (''booking_id'', JStr [])],
            JObj [(''id'', JStr ''p1''), (''status'', JStr ''paid'')]])]"
      "[JObj [(''booking_id'', JStr ''b1''), (''amount'', JNum (Fin 999999999))],
            JObj [(''amount'', JNum (Fin 5))],
            JObj [(''id'', JNull), (''booking_id'', JStr [])],
            JObj [(''id'', JStr ''p1''), (''status'', JStr ''paid'')]]"]
  by simp

text \<open>
  Claim C1, as it is written, fails: an entry whose \<open>id\<close> is the number zero has an
  identity field that is present and not \<open>null\<close>, and the normalizer drops it.
\<close>

theorem getSafeData_identity_counterexample:
  "\<not> eq_null (getProp (JObj [(''id'', JNum (Fin 0))]) ''id'') \<and>
   getSafeData (JObj [(''payments'', JArr [JObj [(''id'', JNum (Fin 0))]])])
     = Inr (JObj [(''payments'', JArr [])])"
  by (simp add: getSafeData_def has_structure_def to_record_def)

section \<open>The record normalizer: fields of a record\<close>

lemma to_record_keys:
  "\<exists>kvs. to_record e = JObj kvs \<and>
     map fst kvs = [''id'', ''bookingId'', ''amount'', ''method'', ''status'', ''paidAt'',
       ''gatewayId'', ''refundId'', ''refundTime'', ''apartmentTitle'', ''startDate'',
       ''endDate'']"
  by (simp add: to_record_def)

text \<open>
  Claim C10. Every record of the normalized set has the twelve canonical fields, in the
  order of the object literal, and no other: any other key reads as \<open>undefined\<close>, whatever
  the raw entry held under it.
\<close>

theorem getSafeData_fields:
  assumes "getSafeData d = Inr safeData" and "getProp safeData ''payments'' = JArr recs"
    and "r \<in> set recs"
  shows "(\<exists>kvs. r = JObj kvs \<and>
           map fst kvs = [''id'', ''bookingId'', ''amount'', ''method'', ''status'', ''paidAt'',
             ''gatewayId'', ''refundId'', ''refundTime'', ''apartmentTitle'', ''startDate'',
             ''endDate'']) \<and>
         (k \<notin> set [''id'', ''bookingId'', ''amount'', ''method'', ''status'', ''paidAt'',
             ''gatewayId'', ''refundId'', ''refundTime'', ''apartmentTitle'', ''startDate'',
             ''endDate''] \<longrightarrow> getProp r k = JUndefined)"
proof -
  obtain recs' where s: "getSafeData d = Inr (JObj [(''payments'', JArr recs')])"
    and all: "\<forall>r \<in> set recs'. \<exists>e. r = to_record e"
    using getSafeData_shape by blast
  from s assms(1,2) have "recs' = recs" by auto
  with all assms(3) obtain e where e: "r = to_record e" by blast
  have "getProp (to_record e) k = JUndefined"
    if "k \<notin> set [''id'', ''bookingId'', ''amount'', ''method'', ''status'', ''paidAt'',
             ''gatewayId'', ''refundId'', ''refundTime'', ''apartmentTitle'', ''startDate'',
             ''endDate'']"
    using that by (simp add: to_record_def)
  with e to_record_keys [of e] show ?thesis by blast
qed

text \<open>An entry with an extra \<open>isAdmin\<close> key: the record has the twelve fields and no \<open>isAdmin\<close>.\<close>

theorem getSafeData_fields_witness:
  "(\<exists>kvs. to_record (JObj [(''id'', JStr ''p1''), (''isAdmin'', JBool True)]) = JObj kvs \<and>
           map fst kvs = [''id'', ''bookingId'', ''amount'', ''method'', ''status'', ''paidAt'',
             ''gatewayId'', ''refundId'', ''refundTime'', ''apartmentTitle'', ''startDate'',
             ''endDate'']) \<and>
   getProp (to_record (JObj [(''id'', JStr ''p1''), (''isAdmin'', JBool True)])) ''isAdmin''
     = JUndefined"
proof -
  let ?e = "JObj [(''id'', JStr ''p1''), (''isAdmin'', JBool True)]"
  have a: "getSafeData (JObj [(''payments'', JArr [?e])])
     = Inr (JObj [(''payments'', JArr [to_record ?e])])"
    by (simp add: getSafeData_def has_structure_def to_record_def)
  have b: "getProp (JObj [(''payments'', JArr [to_record ?e])]) ''payments''
     = JArr [to_record ?e]"
    by simp
  have c: "to_record ?e \<in> set [to_record ?e]"
    by simp
  show ?thesis using getSafeData_fields [OF a b c, of "''isAdmin''"] by simp
qed

section \<open>The text sanitizer\<close>

text \<open>
  Claim C2 asks that the output of the text sanitizer never contain a \<^verbatim>\<open>javascript:\<close>
  URI or a \<^verbatim>\<open><script>...</script>\<close> tag. The sanitizer cuts the matches of each pattern
  out in a single pass, and cutting a match out can join what stands on its two sides
  into a new match, which is not looked at again: from \<^verbatim>\<open>javajavascript:script:alert(1)\<close>
  the inner \<^verbatim>\<open>javascript:\<close> is removed and \<^verbatim>\<open>javascript:alert(1)\<close> is returned, and a
  script tag split around an empty script tag comes out as a whole one.
\<close>

theorem safeToString_single_pass:
  "safeToString sample_platform (JStr ''javajavascript:script:alert(1)'') []
     = Inr ''javascript:alert(1)'' \<and>
   safeToString sample_platform (JStr ''<scr<script></script>ipt>alert(1)</script>'') []
     = Inr ''<script>alert(1)</script>''"
  by code_simp

section \<open>The currency sanitizer\<close>

text \<open>
  Claim C3, as the code has it. For every finite number: in the range from 0 to
  100000000 the result is the currency symbol followed by what the \<^verbatim>\<open>en-IN\<close> number
  format gives; out of the range it is the symbol followed by \<^verbatim>\<open>Invalid\<close>, where the
  plain number sanitizer gives \<^verbatim>\<open>Invalid\<close> alone. For not-a-number and the two
  infinities, and for \<open>null\<close> and \<open>undefined\<close>, the result is the default.
\<close>

theorem safeFormatCurrency_cases:
  "(0 \<le> q \<and> q \<le> 100000000 \<longrightarrow>
      safeFormatCurrency p (JNum (Fin q)) currency d
        = Inr (currency @ toLocaleString_enIN p (Fin q))) \<and>
   (q < 0 \<or> 100000000 < q \<longrightarrow>
      safeFormatCurrency p (JNum (Fin q)) currency d = Inr (currency @ ''Invalid'') \<and>
      safeFormatNumber p (JNum (Fin q)) d = Inr ''Invalid'') \<and>
   (n \<in> {NaN, PosInf, NegInf} \<longrightarrow> safeFormatCurrency p (JNum n) currency d = Inr d) \<and>
   safeFormatCurrency p JNull currency d = Inr d \<and>
   safeFormatCurrency p JUndefined currency d = Inr d"
proof -
  have inside: "safeFormatCurrency p (JNum (Fin q)) currency d
      = Inr (currency @ toLocaleString_enIN p (Fin q))"
    if "0 \<le> q" "q \<le> 100000000"
    using that by (simp add: safeFormatCurrency_def)
  have outside: "safeFormatCurrency p (JNum (Fin q)) currency d = Inr (currency @ ''Invalid'')"
    "safeFormatNumber p (JNum (Fin q)) d = Inr ''Invalid''"
    if "q < 0 \<or> 100000000 < q"
    using that by (auto simp add: safeFormatCurrency_def safeFormatNumber_def)
  have not_finite: "safeFormatCurrency p (JNum n) currency d = Inr d"
    if "n \<in> {NaN, PosInf, NegInf}"
    using that by (auto simp add: safeFormatCurrency_def)
  have missing: "safeFormatCurrency p JNull currency d = Inr d"
    "safeFormatCurrency p JUndefined currency d = Inr d"
    by (simp_all add: safeFormatCurrency_def)
  from inside outside not_finite missing show ?thesis by blast
qed

text \<open>
  The amount 500 is shown with the symbol, 999999999 is rejected with the symbol by the
  currency sanitizer and without it by the number sanitizer, and not-a-number and \<open>null\<close>
  give the default.
\<close>

theorem safeFormatCurrency_cases_witness:
  "safeFormatCurrency sample_platform (JNum (Fin 500)) rupee ''N/A'' = Inr (rupee @ ''500'') \<and>
   safeFormatCurrency sample_platform (JNum (Fin 999999999)) rupee ''N/A''
     = Inr (rupee @ ''Invalid'') \<and>
   safeFormatNumber sample_platform (JNum (Fin 999999999)) ''N/A'' = Inr ''Invalid'' \<and>
   safeFormatCurrency sample_platform (JNum NaN) rupee ''N/A'' = Inr ''N/A'' \<and>
   safeFormatCurrency sample_platform JNull rupee ''N/A'' = Inr ''N/A''"
  using safeFormatCurrency_cases [of 500 sample_platform rupee "''N/A''" NaN]
        safeFormatCurrency_cases [of 999999999 sample_platform rupee "''N/A''" NaN]
  by (simp add: sample_platform_def lookup_or_def)

text \<open>
  Claim C3, as it is written, fails: positive infinity is a number above 100000000, and
  the currency sanitizer answers with the default, not with the symbol and \<^verbatim>\<open>Invalid\<close>.
\<close>

theorem safeFormatCurrency_cases_counterexample:
  "num_less (Fin 100000000) PosInf \<and>
   safeFormatCurrency sample_platform (JNum PosInf) rupee ''N/A'' = Inr ''N/A'' \<and>
   safeFormatCurrency sample_platform (JNum PosInf) rupee ''N/A'' \<noteq> Inr (rupee @ ''Invalid'')"
  by (simp add: safeFormatCurrency_def rupee_def)

section \<open>The date sanitizer\<close>

lemma TimeClip_of_int:
  assumes "\<bar>x\<bar> \<le> 8640000000000000"
  shows "TimeClip (Fin (of_int x)) = Some x"
proof -
  have "\<bar>(of_int x :: rat)\<bar> = of_int \<bar>x\<bar>" by simp
  also have "\<dots> \<le> of_int 8640000000000000" using assms by (simp only: of_int_le_iff)
  finally have "\<not> \<bar>(of_int x :: rat)\<bar> > 8640000000000000" by simp
  then show ?thesis by (simp add: TimeClip_def)
qed

lemma falsy_Date_new:
  assumes "\<not> truthy v" and "dateParse p [] = None" and "Date_new p v = Inr (Some t)"
  shows "t = 0"
  using assms by (cases v) (auto simp add: TimeClip_def split: if_splits)

text \<open>
  Claim C4, as the code has it. The clock reads a time from the epoch on that is more than
  a day before the end of the range of time values, and the runtime does not parse the
  empty string as a date. Then an input whose date lies more than one day after the clock
  reading gives \<^verbatim>\<open>Invalid Date\<close>; an input that gives no valid date, or whose conversion
  throws, gives the default; a truthy input whose date is valid and at most one day ahead
  gives what the \<^verbatim>\<open>en-IN\<close> date format makes of it, a non-empty string wherever the
  runtime's format is one; and a falsy input (\<open>null\<close>, \<open>undefined\<close>, \<open>false\<close>, zero,
  not-a-number, the empty string) gives the default, whatever date it denotes.
\<close>

theorem safeFormatDate_cases:
  assumes "0 \<le> now" and "now + 86400000 \<le> 8640000000000000" and "dateParse p [] = None"
  shows "(Date_new p v = Inr (Some t) \<and> now + 86400000 < t \<longrightarrow>
            safeFormatDate p now v d = Inr ''Invalid Date'') \<and>
         (Date_new p v = Inr None \<or> Date_new p v = Inl e \<longrightarrow>
            safeFormatDate p now v d = Inr d) \<and>
         (truthy v \<and> Date_new p v = Inr (Some t) \<and> t \<le> now + 86400000 \<longrightarrow>
            safeFormatDate p now v d = Inr (toLocaleDateString_enIN p t)) \<and>
         (truthy v \<and> Date_new p v = Inr (Some t) \<and> t \<le> now + 86400000 \<and>
          toLocaleDateString_enIN p t \<noteq> [] \<longrightarrow>
            (\<exists>s. safeFormatDate p now v d = Inr s \<and> s \<noteq> [])) \<and>
         (\<not> truthy v \<longrightarrow> safeFormatDate p now v d = Inr d)"
proof -
  have lim: "TimeClip (Fin (of_int (now + 86400000))) = Some (now + 86400000)"
    using assms(1,2) by (intro TimeClip_of_int) simp
  have falsy: "safeFormatDate p now v d = Inr d" if "\<not> truthy v"
    using that by (simp add: safeFormatDate_def)
  have future: "safeFormatDate p now v d = Inr ''Invalid Date''"
    if "Date_new p v = Inr (Some t)" "now + 86400000 < t"
  proof (cases "truthy v")
    case True
    with that lim show ?thesis by (simp add: safeFormatDate_def)
  next
    case False
    from False assms(3) that(1) have "t = 0" by (rule falsy_Date_new)
    with that(2) assms(1) show ?thesis by simp
  qed
  have bad: "safeFormatDate p now v d = Inr d"
    if "Date_new p v = Inr None \<or> Date_new p v = Inl e"
    using that by (auto simp add: safeFormatDate_def)
  have good: "safeFormatDate p now v d = Inr (toLocaleDateString_enIN p t)"
    if "truthy v" "Date_new p v = Inr (Some t)" "t \<le> now + 86400000"
    using that lim by (simp add: safeFormatDate_def)
  have nonempty: "\<exists>s. safeFormatDate p now v d = Inr s \<and> s \<noteq> []"
    if "truthy v" "Date_new p v = Inr (Some t)" "t \<le> now + 86400000"
      "toLocaleDateString_enIN p t \<noteq> []"
    using good [OF that(1,2,3)] that(4) by simp
  from future bad good nonempty falsy show ?thesis by blast
qed

text \<open>
  With the clock at 15 January 2024, 10:30 UTC: a time stamp in 2027 is rejected, a string
  that is no date gives the default, the clock's own instant is formatted, to a string
  that is not empty, and the falsy inputs 0, \<open>null\<close>, \<open>false\<close> and the empty string give
  the default, although the first three denote the epoch.
\<close>

theorem safeFormatDate_cases_witness:
  "safeFormatDate sample_platform 1705314600000 (JNum (Fin 1800000000000)) ''N/A''
     = Inr ''Invalid Date'' \<and>
   safeFormatDate sample_platform 1705314600000 (JStr ''soon'') ''N/A'' = Inr ''N/A'' \<and>
   safeFormatDate sample_platform 1705314600000 (JStr ''2024-01-15T10:30:00.000Z'') ''N/A''
     = Inr ''15 Jan 2024, 04:00 pm'' \<and>
   (\<exists>s. safeFormatDate sample_platform 1705314600000 (JStr ''2024-01-15T10:30:00.000Z'')
          ''N/A'' = Inr s \<and> s \<noteq> []) \<and>
   safeFormatDate sample_platform 1705314600000 (JNum (Fin 0)) ''N/A'' = Inr ''N/A'' \<and>
   safeFormatDate sample_platform 1705314600000 JNull ''N/A'' = Inr ''N/A'' \<and>
   safeFormatDate sample_platform 1705314600000 (JBool False) ''N/A'' = Inr ''N/A'' \<and>
   safeFormatDate sample_platform 1705314600000 (JStr []) ''N/A'' = Inr ''N/A''"
proof -
  have p: "dateParse sample_platform [] = None"
    by (simp add: sample_platform_def lookup_or_def)
  have clock: "(0::int) \<le> 1705314600000" "(1705314600000::int) + 86400000 \<le> 8640000000000000"
    by simp_all
  note cases = safeFormatDate_cases [OF clock p]
  have future: "Date_new sample_platform (JNum (Fin 1800000000000)) = Inr (Some 1800000000000)"
    by (simp add: TimeClip_def)
  have bad: "Date_new sample_platform (JStr ''soon'') = Inr None"
    by (simp add: sample_platform_def lookup_or_def)
  have good: "Date_new sample_platform (JStr ''2024-01-15T10:30:00.000Z'')
      = Inr (Some 1705314600000)"
    by (simp add: sample_platform_def lookup_or_def)
  have fmt: "toLocaleDateString_enIN sample_platform 1705314600000 = ''15 Jan 2024, 04:00 pm''"
    by (simp add: sample_platform_def lookup_or_def)
  have a: "safeFormatDate sample_platform 1705314600000 (JNum (Fin 1800000000000)) ''N/A''
      = Inr ''Invalid Date''"
    using cases [of "JNum (Fin 1800000000000)" 1800000000000 "''N/A''" TypeError] future
    by simp
  have b: "safeFormatDate sample_platform 1705314600000 (JStr ''soon'') ''N/A'' = Inr ''N/A''"
    using cases [of "JStr ''soon''" 0 "''N/A''" TypeError] bad by simp
  have c: "safeFormatDate sample_platform 1705314600000 (JStr ''2024-01-15T10:30:00.000Z'')
      ''N/A'' = Inr ''15 Jan 2024, 04:00 pm''"
    "\<exists>s. safeFormatDate sample_platform 1705314600000 (JStr ''2024-01-15T10:30:00.000Z'')
      ''N/A'' = Inr s \<and> s \<noteq> []"
    using cases [of "JStr ''2024-01-15T10:30:00.000Z''" 1705314600000 "''N/A''" TypeError]
      good fmt
    by simp_all
  have f: "safeFormatDate sample_platform 1705314600000 (JNum (Fin 0)) ''N/A'' = Inr ''N/A''"
    "safeFormatDate sample_platform 1705314600000 JNull ''N/A'' = Inr ''N/A''"
    "safeFormatDate sample_platform 1705314600000 (JBool False) ''N/A'' = Inr ''N/A''"
    "safeFormatDate sample_platform 1705314600000 (JStr []) ''N/A'' = Inr ''N/A''"
    using cases [of "JNum (Fin 0)" 0 "''N/A''" TypeError]
      cases [of JNull 0 "''N/A''" TypeError]
      cases [of "JBool False" 0 "''N/A''" TypeError]
      cases [of "JStr []" 0 "''N/A''" TypeError]
    by simp_all
  from a b c f show ?thesis by blast
qed

text \<open>
  Claim C4, as it is written, fails: the time stamp 0 is the valid date of the epoch, long
  past, and the sanitizer takes the number for a missing value and answers with the
  default instead of the formatted date.
\<close>

theorem safeFormatDate_cases_counterexample:
  "Date_new sample_platform (JNum (Fin 0)) = Inr (Some 0) \<and>
   (0::int) \<le> 1705314600000 + 86400000 \<and>
   safeFormatDate sample_platform 1705314600000 (JNum (Fin 0)) ''N/A'' = Inr ''N/A'' \<and>
   safeFormatDate sample_platform 1705314600000 (JNum (Fin 0)) ''N/A''
     \<noteq> Inr (toLocaleDateString_enIN sample_platform 0)"
  by (simp add: TimeClip_def safeFormatDate_def sample_platform_def lookup_or_def)

section \<open>The payment-method sanitizer\<close>

lemma PAYMENT_METHODS_set:
  "set PAYMENT_METHODS =
     {(''credit_card'', ''Credit Card''), (''debit_card'', ''Debit Card''),
      (''upi'', ''UPI''), (''netbanking'', ''Net Banking''), (''wallet'', ''Digital Wallet'')}"
  by (simp add: PAYMENT_METHODS_def)

lemma PAYMENT_METHODS_keys:
  "fst ` set PAYMENT_METHODS =
     {''credit_card'', ''debit_card'', ''upi'', ''netbanking'', ''wallet''}"
  by (simp add: PAYMENT_METHODS_def)

lemma PAYMENT_METHODS_distinct: "distinct (map fst PAYMENT_METHODS)"
  by (simp add: PAYMENT_METHODS_def)

lemma PAYMENT_METHODS_labels: "(k, label) \<in> set PAYMENT_METHODS \<Longrightarrow> label \<noteq> []"
  by (auto simp add: PAYMENT_METHODS_def)

lemma PAYMENT_METHODS_get_own:
  "(k, label) \<in> set PAYMENT_METHODS \<Longrightarrow> PAYMENT_METHODS_get k = Some (Text label)"
  by (simp add: PAYMENT_METHODS_get_def map_of_is_SomeI [OF PAYMENT_METHODS_distinct])

lemma PAYMENT_METHODS_get_none:
  assumes "k \<notin> fst ` set PAYMENT_METHODS" and "k \<notin> set Object_prototype"
  shows "PAYMENT_METHODS_get k = None"
proof -
  from assms(1) have "map_of PAYMENT_METHODS k = None"
    by (rule map_of_eq_None_iff [THEN iffD2])
  with assms(2) show ?thesis by (simp add: PAYMENT_METHODS_get_def)
qed

text \<open>
  Claim C6 asks that every sanitizer return a value of its target type, for the
  payment-method sanitizer a display string. None of the five throws (the lemmas on
  totality above), and the other four return strings. The payment-method sanitizer reads
  the lower-cased method in the table of labels without asking whether the key is the
  table's own, so for the method \<^verbatim>\<open>constructor\<close> it finds the function that every object
  inherits under that name, and returns it.
\<close>

theorem safePaymentMethod_inherited:
  "safePaymentMethod sample_platform (JStr ''constructor'') = Inr (Inherited ''constructor'')"
  by code_simp

text \<open>
  Claim C9, as the code has it. A value whose sanitized text, in lower case, is one of the
  five method keys gives the label of that key. \<open>null\<close> and \<open>undefined\<close> give \<^verbatim>\<open>Unknown\<close>.
  Any other value whose sanitized text, in lower case, is not the name of a member of
  \<^verbatim>\<open>Object.prototype\<close> gives the text sanitizer's result for it, with \<^verbatim>\<open>Unknown\<close> as the
  sanitizer's default.
\<close>

theorem safePaymentMethod_cases:
  assumes "safeToString p m [] = Inr s" and "safeToString p m ''Unknown'' = Inr t"
  shows "((k, label) \<in> {(''credit_card'', ''Credit Card''), (''debit_card'', ''Debit Card''),
             (''upi'', ''UPI''), (''netbanking'', ''Net Banking''),
             (''wallet'', ''Digital Wallet'')} \<and>
          toLowerCase s = k \<longrightarrow> safePaymentMethod p m = Inr (Text label)) \<and>
         (toLowerCase s \<notin> {''credit_card'', ''debit_card'', ''upi'', ''netbanking'', ''wallet''} \<and>
          toLowerCase s \<notin> set Object_prototype \<longrightarrow> safePaymentMethod p m = Inr (Text t)) \<and>
         (eq_null m \<longrightarrow> safePaymentMethod p m = Inr (Text ''Unknown''))"
proof -
  have known: "safePaymentMethod p m = Inr (Text label)"
    if "(k, label) \<in> set PAYMENT_METHODS" and "toLowerCase s = k"
  proof -
    from that(1) have "PAYMENT_METHODS_get k = Some (Text label)" and "label \<noteq> []"
      by (rule PAYMENT_METHODS_get_own, rule PAYMENT_METHODS_labels)
    with that(2) assms(1) show ?thesis by (simp add: safePaymentMethod_def)
  qed
  have other: "safePaymentMethod p m = Inr (Text t)"
    if "toLowerCase s \<notin> fst ` set PAYMENT_METHODS" and "toLowerCase s \<notin> set Object_prototype"
  proof -
    from that have "PAYMENT_METHODS_get (toLowerCase s) = None"
      by (rule PAYMENT_METHODS_get_none)
    with assms show ?thesis by (simp add: safePaymentMethod_def)
  qed
  have null: "safePaymentMethod p m = Inr (Text ''Unknown'')" if "eq_null m"
  proof -
    from that assms have st: "s = []" "t = ''Unknown''"
      by (simp_all add: safeToString_null)
    have "PAYMENT_METHODS_get [] = None" by code_simp
    with assms st show ?thesis by (simp add: safePaymentMethod_def toLowerCase_def)
  qed
  from known other null show ?thesis
    unfolding PAYMENT_METHODS_set [symmetric] PAYMENT_METHODS_keys [symmetric] by blast
qed

text \<open>
  A card method in mixed case and with spaces around it gets its label, a method outside
  the enumeration comes back as its own text, and \<open>null\<close> gives \<^verbatim>\<open>Unknown\<close>.
\<close>

theorem safePaymentMethod_cases_witness:
  "safePaymentMethod sample_platform (JStr '' Credit_Card '') = Inr (Text ''Credit Card'') \<and>
   safePaymentMethod sample_platform (JStr ''Cash on delivery'')
     = Inr (Text ''Cash on delivery'') \<and>
   safePaymentMethod sample_platform JNull = Inr (Text ''Unknown'')"
proof -
  have a: "safeToString sample_platform (JStr '' Credit_Card '') [] = Inr ''Credit_Card''"
    "safeToString sample_platform (JStr '' Credit_Card '') ''Unknown'' = Inr ''Credit_Card''"
    "toLowerCase ''Credit_Card'' = ''credit_card''"
    by code_simp+
  have b: "safeToString sample_platform (JStr ''Cash on delivery'') []
      = Inr ''Cash on delivery''"
    "safeToString sample_platform (JStr ''Cash on delivery'') ''Unknown''
      = Inr ''Cash on delivery''"
    "toLowerCase ''Cash on delivery'' = ''cash on delivery''"
    by code_simp+
  have c: "safeToString sample_platform JNull [] = Inr []"
    "safeToString sample_platform JNull ''Unknown'' = Inr ''Unknown''"
    by (simp_all add: safeToString_def)
  show ?thesis
    using safePaymentMethod_cases [OF a(1,2), of "''credit_card''" "''Credit Card''"]
      safePaymentMethod_cases [OF b(1,2), of "''credit_card''" "''Credit Card''"]
      safePaymentMethod_cases [OF c, of "''credit_card''" "''Credit Card''"]
    by (simp add: a(3) b(3) Object_prototype_def)
qed

text \<open>
  Claim C9, as it is written, fails: \<^verbatim>\<open>cash\<close> is none of the five methods, and the
  sanitizer gives \<^verbatim>\<open>cash\<close> back, not \<^verbatim>\<open>Unknown\<close>.
\<close>

theorem safePaymentMethod_cases_counterexample:
  "toLowerCase ''cash'' \<notin> {''credit_card'', ''debit_card'', ''upi'', ''netbanking'', ''wallet''} \<and>
   safePaymentMethod sample_platform (JStr ''cash'') = Inr (Text ''cash'') \<and>
   safePaymentMethod sample_platform (JStr ''cash'') \<noteq> Inr (Text ''Unknown'')"
  by code_simp

section \<open>The filter\<close>

lemma keep_payment_shown: "keep_payment p selector r = Inr (shown p selector r)"
proof -
  obtain s where "safeToString p (getProp r ''status'') [] = Inr s"
    using safeToString_total by blast
  then show ?thesis by (auto simp add: keep_payment_def shown_def)
qed

lemma filter_res_pure: "(\<And>x. f x = Inr (g x)) \<Longrightarrow> filter_res f xs = Inr (filter g xs)"
  by (induction xs) simp_all

lemma filteredPayments_filter:
  "filteredPayments p (JObj [(''payments'', JArr recs)]) selector
     = Inr (filter (shown p selector) recs)"
  by (simp add: filteredPayments_def filter_res_pure keep_payment_shown)

text \<open>
  Claim C7. On the record set of the normalizer: the selector \<^verbatim>\<open>all\<close> gives the whole set
  in its order; any other selector gives, in input order, exactly the records whose
  sanitized status is that very string; and filtering the filtered set again, with the
  same selector, changes nothing. This holds for every selector, the four of the
  enumeration among them.
\<close>

theorem filteredPayments_selector:
  assumes "getSafeData d = Inr safeData" and "getProp safeData ''payments'' = JArr recs"
  shows "filteredPayments p safeData (JStr ''all'') = Inr recs \<and>
         (sel \<noteq> ''all'' \<longrightarrow>
            filteredPayments p safeData (JStr sel) =
              Inr (filter (\<lambda>r. safeToString p (getProp r ''status'') [] = Inr sel) recs)) \<and>
         bind (filteredPayments p safeData (JStr sel))
              (\<lambda>once. filteredPayments p (JObj [(''payments'', JArr once)]) (JStr sel))
           = filteredPayments p safeData (JStr sel)"
proof -
  obtain recs' where s: "getSafeData d = Inr (JObj [(''payments'', JArr recs')])"
    and all: "\<forall>r \<in> set recs'. \<exists>e. r = to_record e"
    using getSafeData_shape by blast
  from s assms have sd: "safeData = JObj [(''payments'', JArr recs)]" and "recs' = recs"
    by auto
  with all have obj: "\<forall>r \<in> set recs. truthy r \<and> typeof r = ''object''"
    using to_record_object by auto
  have "filter (shown p (JStr ''all'')) recs = recs"
    using obj by (simp add: shown_def)
  then have a: "filteredPayments p safeData (JStr ''all'') = Inr recs"
    by (simp add: sd filteredPayments_filter)
  have b: "filteredPayments p safeData (JStr sel) =
      Inr (filter (\<lambda>r. safeToString p (getProp r ''status'') [] = Inr sel) recs)"
    if "sel \<noteq> ''all''"
  proof -
    have "shown p (JStr sel) r = (safeToString p (getProp r ''status'') [] = Inr sel)"
      if "r \<in> set recs" for r
      using that obj \<open>sel \<noteq> ''all''\<close> by (auto simp add: shown_def split: sum.splits)
    then have "filter (shown p (JStr sel)) recs =
        filter (\<lambda>r. safeToString p (getProp r ''status'') [] = Inr sel) recs"
      by (intro filter_cong) simp_all
    then show ?thesis by (simp add: sd filteredPayments_filter)
  qed
  have c: "bind (filteredPayments p safeData (JStr sel))
              (\<lambda>once. filteredPayments p (JObj [(''payments'', JArr once)]) (JStr sel))
           = filteredPayments p safeData (JStr sel)"
    by (simp add: sd filteredPayments_filter)
  from a b c show ?thesis by blast
qed

text \<open>
  Of three records with the statuses \<^verbatim>\<open>paid\<close>, \<^verbatim>\<open>refunded\<close> and \<^verbatim>\<open>failed\<close>, the selector
  \<^verbatim>\<open>refunded\<close> shows the second one only.
\<close>

theorem filteredPayments_selector_witness:
  "filteredPayments sample_platform
     (JObj [(''payments'',
        JArr [to_record (JObj [(''id'', JStr ''p1''), (''status'', JStr ''paid'')]),
              to_record (JObj [(''id'', JStr ''p2''), (''status'', JStr ''refunded'')]),
              to_record (JObj [(''id'', JStr ''p3''), (''status'', JStr ''failed'')])])])
     (JStr ''refunded'')
   = Inr [to_record (JObj [(''id'', JStr ''p2''), (''status'', JStr ''refunded'')])]"
proof -
  let ?d = "JObj [(''payments'',
        JArr [JObj [(''id'', JStr ''p1''), (''status'', JStr ''paid'')],
              JObj [(''id'', JStr ''p2''), (''status'', JStr ''refunded'')],
              JObj [(''id'', JStr ''p3''), (''status'', JStr ''failed'')]])]"
  let ?recs = "[to_record (JObj [(''id'', JStr ''p1''), (''status'', JStr ''paid'')]),
              to_record (JObj [(''id'', JStr ''p2''), (''status'', JStr ''refunded'')]),
              to_record (JObj [(''id'', JStr ''p3''), (''status'', JStr ''failed'')])]"
  have a: "getSafeData ?d = Inr (JObj [(''payments'', JArr ?recs)])"
    by (simp add: getSafeData_def has_structure_def to_record_def)
  have b: "getProp (JObj [(''payments'', JArr ?recs)]) ''payments'' = JArr ?recs"
    by simp
  have s: "safeToString sample_platform (JStr ''paid'') [] = Inr ''paid''"
    "safeToString sample_platform (JStr ''refunded'') [] = Inr ''refunded''"
    "safeToString sample_platform (JStr ''failed'') [] = Inr ''failed''"
    by code_simp+
  show ?thesis
    using filteredPayments_selector [OF a b, of sample_platform "''refunded''"]
    by (simp add: getProp_to_record s)
qed

section \<open>The selector\<close>

lemma handleFilterChange_step:
  "handleFilterChange cur r =
     Inr (if r \<in> {JStr ''all'', JStr ''paid'', JStr ''refunded'', JStr ''failed''}
          then r else cur)"
  by (cases r) (auto simp add: handleFilterChange_def FILTERS_def)

lemma run_requests_invariant:
  "cur \<in> {JStr ''all'', JStr ''paid'', JStr ''refunded'', JStr ''failed''} \<Longrightarrow>
   \<exists>s \<in> {JStr ''all'', JStr ''paid'', JStr ''refunded'', JStr ''failed''}.
      run_requests cur reqs = Inr s"
proof (induction reqs arbitrary: cur)
  case Nil
  then show ?case by simp
next
  case (Cons r reqs)
  let ?next = "if r \<in> {JStr ''all'', JStr ''paid'', JStr ''refunded'', JStr ''failed''}
               then r else cur"
  have "?next \<in> {JStr ''all'', JStr ''paid'', JStr ''refunded'', JStr ''failed''}"
    using Cons.prems by (simp split: if_splits)
  from Cons.IH [OF this] show ?case by (simp add: handleFilterChange_step)
qed

text \<open>
  Claim C8. A request that is the string of one of the four filters becomes the selector;
  any other request, a string or not, leaves the selector as it was, without an error.
  So after any sequence of requests, from the initial \<^verbatim>\<open>all\<close> on, the selector is one of
  the four.
\<close>

theorem handleFilterChange_enumeration:
  "handleFilterChange cur r =
     Inr (if r \<in> {JStr ''all'', JStr ''paid'', JStr ''refunded'', JStr ''failed''}
          then r else cur) \<and>
   (\<exists>s \<in> {JStr ''all'', JStr ''paid'', JStr ''refunded'', JStr ''failed''}.
      run_requests initial_filter reqs = Inr s)"
  using run_requests_invariant [of initial_filter reqs]
  by (simp add: handleFilterChange_step initial_filter_def)

text \<open>
  A label in place of an id is ignored, an id is taken, and of four requests only the
  first, a filter id, moves the selector.
\<close>

theorem handleFilterChange_enumeration_witness:
  "handleFilterChange (JStr ''paid'') (JStr ''Paid'') = Inr (JStr ''paid'') \<and>
   handleFilterChange (JStr ''paid'') (JStr ''refunded'') = Inr (JStr ''refunded'') \<and>
   run_requests initial_filter [JStr ''failed'', JNum (Fin 3), JStr ''cancelled'', JNull]
     = Inr (JStr ''failed'')"
  using handleFilterChange_enumeration [of "JStr ''paid''" "JStr ''Paid''" "[]"]
    handleFilterChange_enumeration [of "JStr ''paid''" "JStr ''refunded''"
      "[JStr ''failed'', JNum (Fin 3), JStr ''cancelled'', JNull]"]
  by (auto simp add: initial_filter_def handleFilterChange_step)

end
